theory Spec2Isabelle
  imports Main "HOL-Library.AList" "HOL-Library.Char_ord" "HOL-Library.List_Lexorder"
    "HOL-Library.Option_ord" "HOL-Library.Product_Lexorder"
begin

section \<open>Job collection protocol\<close>

text \<open>
  The master keeps one table \<open>prompt_server.distributed_pending_jobs\<close>: a dict from job id
  to an unbounded \<open>asyncio.Queue\<close> of result dicts. Job ids and the worker ids of the
  expected workers are Python strings, compared and sorted by code point, which is the
  lexicographic order of \<^typ>\<open>string\<close> here. A queue is the list of its items, oldest
  first.

  The worker id of a queue item is what \<open>data.get('worker_id')\<close> gave the endpoint: the
  string of the form field, or \<open>None\<close> when the form had no such field. The endpoint
  stores it as it is.

  Every queue item carries one image: \<open>job_complete_endpoint\<close> decodes one uploaded file per
  request into a tensor with a batch dimension of one. The type \<open>'p\<close> stands for such a
  single-image tensor, and a batch of images (the node's \<open>images\<close> input and its result)
  is a \<open>'p list\<close>, so \<open>images[i:i+1]\<close> is the \<open>i\<close>-th element and \<open>images.shape[0]\<close> the
  length.
\<close>

record 'p queue_item =
  tensor :: 'p
  worker_id :: "string option"
  image_index :: int
  is_last :: bool

type_synonym 'p pending_jobs = "string \<rightharpoonup> 'p queue_item list"

text \<open>
  The HTTP responses of the endpoints: \<open>web.json_response({"status": "success"})\<close>, and
  \<open>handle_api_error\<close> with status 400, with status 404, or with its default status (the
  helper lives in \<open>utils/network.py\<close>; only the status it is called with matters here).
\<close>

datatype response = Success | Error400 | Error404 | ErrorDefault

definition prepare_job_endpoint :: "string \<Rightarrow> 'p pending_jobs \<Rightarrow> response \<times> 'p pending_jobs" where
  "prepare_job_endpoint multi_job_id jobs =
     (if multi_job_id = [] then (Error400, jobs)
      else (Success, if jobs multi_job_id = None then jobs(multi_job_id \<mapsto> []) else jobs))"

text \<open>
  The form of a \<open>/distributed/job_complete\<close> request. A field the form lacks reads as
  \<open>None\<close> in the source; for the two text fields that are only tested for truth
  (\<open>multi_job_id\<close>, \<open>image_index\<close>) the empty string stands for it as well. \<open>form_is_last\<close>
  is the value of \<open>data.get('is_last', 'False').lower() == 'true'\<close>.

  Two library calls can raise: decoding the uploaded file (\<open>Image.open\<close>, \<open>pil_to_tensor\<close>)
  and \<open>int(image_index)\<close>. They are the parameters \<open>decode\<close> and \<open>py_int\<close>, with \<open>None\<close> for
  a raised exception.
\<close>

record 'f job_complete_form =
  form_multi_job_id :: string
  form_image :: "'f option"
  form_worker_id :: "string option"
  form_image_index :: string
  form_is_last :: bool

definition job_complete_endpoint ::
  "('f \<Rightarrow> 'p option) \<Rightarrow> (string \<Rightarrow> int option) \<Rightarrow> 'f job_complete_form \<Rightarrow>
     'p pending_jobs \<Rightarrow> response \<times> 'p pending_jobs" where
  "job_complete_endpoint decode py_int data jobs =
     (case form_image data of
        None \<Rightarrow> (Error400, jobs)
      | Some image_file \<Rightarrow>
          if form_multi_job_id data = [] then (Error400, jobs)
          else (case decode image_file of
                  None \<Rightarrow> (Error400, jobs)
                | Some t \<Rightarrow>
                    (case jobs (form_multi_job_id data) of
                       None \<Rightarrow> (Error404, jobs)
                     | Some q \<Rightarrow>
                         (case (if form_image_index data = [] then Some 0
                                else py_int (form_image_index data)) of
                            None \<Rightarrow> (ErrorDefault, jobs)
                          | Some idx \<Rightarrow>
                              (Success,
                               jobs(form_multi_job_id data \<mapsto>
                                 q @ [\<lparr>tensor = t, worker_id = form_worker_id data,
                                        image_index = idx, is_last = form_is_last data\<rparr>]))))))"

subsection \<open>The collector node\<close>

text \<open>
  The consumer-local state of \<open>execute\<close>: \<open>worker_images\<close> is a dict of dicts (worker id to
  image index to tensor), kept as association lists in insertion order, \<open>workers_done\<close> a
  set of worker ids.
\<close>

record 'p collect_state =
  worker_images :: "(string option \<times> (int \<times> 'p) list) list"
  workers_done :: "string option set"
  collected_count :: nat

text \<open>
  What the loop body and the timeout drain both do with one item of the queue: create the
  worker's bucket if it is missing, assign the tensor at its index, count it, and add the
  worker to \<open>workers_done\<close> if the item is the last one.
\<close>

definition store_result :: "'p queue_item \<Rightarrow> 'p collect_state \<Rightarrow> 'p collect_state" where
  "store_result result st =
     (let bucket = (case map_of (worker_images st) (worker_id result) of
                      None \<Rightarrow> [] | Some imgs \<Rightarrow> imgs)
      in st\<lparr>worker_images :=
               AList.update (worker_id result)
                 (AList.update (image_index result) (tensor result) bucket) (worker_images st),
             workers_done :=
               (if is_last result then insert (worker_id result) (workers_done st)
                else workers_done st),
             collected_count := collected_count st + 1\<rparr>)"

text \<open>
  The loop \<open>while len(workers_done) < num_workers\<close>. The first list holds the items that
  \<open>q.get()\<close> delivers in time, in queue order: what the queue held when the loop started,
  then what producers put while it was waiting. When that list is used up the wait times
  out; the second list holds the items found by the non-blocking drain that follows (those
  that raced in after the timeout fired). The loop returns the state and whether it left by
  the timeout.
\<close>

fun collect_loop ::
  "nat \<Rightarrow> 'p queue_item list \<Rightarrow> 'p queue_item list \<Rightarrow> 'p collect_state \<Rightarrow>
     'p collect_state \<times> bool" where
  "collect_loop num_workers [] remaining_items st =
     (if card (workers_done st) < num_workers
      then (fold store_result remaining_items st, True)
      else (st, False))"
| "collect_loop num_workers (result # arriving) remaining_items st =
     (if card (workers_done st) < num_workers
      then collect_loop num_workers arriving remaining_items (store_result result st)
      else (st, False))"

text \<open>
  The reordering: \<open>for worker_id_str in sorted(worker_images.keys())\<close>, and inside it
  \<open>for idx in sorted(worker_images[worker_id_str].keys())\<close>. The indices are integers.
  The worker ids are strings or \<open>None\<close>, and Python does not compare \<open>None\<close> with a string:
  \<open>sorted\<close> raises \<open>TypeError\<close> when the keys hold \<open>None\<close> and a string (a sort has to
  compare the single \<open>None\<close> key with some other key), and sorts by string order when all keys
  are strings. The order of \<^typ>\<open>string option\<close> puts \<open>None\<close> first; it is used
  only where the keys do not mix, where that choice plays no part. The keys of a dict are
  distinct, so sorting the entries by key visits them in the order of the sorted keys.
\<close>

datatype py_error = TypeError

definition mixed_keys :: "string option list \<Rightarrow> bool" where
  "mixed_keys ks = (None \<in> set ks \<and> (\<exists>k \<in> set ks. k \<noteq> None))"

definition ordered_worker_tensors ::
  "(string option \<times> (int \<times> 'p) list) list \<Rightarrow> py_error + 'p list" where
  "ordered_worker_tensors wi =
     (if mixed_keys (map fst wi) then Inl TypeError
      else Inr (concat (map (\<lambda>(worker_id_str, imgs). map snd (sort_key fst imgs))
                          (sort_key fst wi))))"

text \<open>
  \<open>torch.cat(cpu_tensors, dim=0)\<close> on single-image tensors gives the batch of them in list
  order, or raises (an empty list, images of different shapes). The parameter \<open>cat_ok\<close>
  says for which lists it succeeds.
\<close>

definition torch_cat :: "('p list \<Rightarrow> bool) \<Rightarrow> 'p list \<Rightarrow> 'p list option" where
  "torch_cat cat_ok cpu_tensors = (if cat_ok cpu_tensors then Some cpu_tensors else None)"

record 'p execute_result =
  returned :: "py_error + 'p list"
  jobs_after :: "'p pending_jobs"
  posted :: "'p queue_item list"
  timed_out :: bool

text \<open>
  \<open>DistributedCollectorNode.execute\<close>. \<open>enabled_workers\<close> is the list that
  \<open>json.loads(enabled_worker_ids)\<close> gives. In worker mode the node posts each image to the
  master (\<open>posted\<close>, in order; a failed post is logged and ignored) and returns its input.
  In master mode it collects: a queue that is missing is created (\<open>jobs1\<close>), the loop
  runs, the queue is deleted (\<open>jobs2\<close>), and the tensors are reordered and concatenated:
  the master's images first, then the workers'. A \<open>TypeError\<close> of the reordering leaves
  \<open>execute\<close> as an exception, after the queue is deleted; an exception of \<open>torch.cat\<close>
  is caught and the master's images are returned as a fallback. \<open>arriving\<close> are the
  items producers put while the call waits and \<open>racing\<close> those the drain finds after a
  timeout; no other task changes the table during the call. \<open>timed_out\<close> records how the
  loop was left. The parameters \<open>master_url\<close> and \<open>worker_batch_size\<close> of the source
  have no part in the result and are left out.
\<close>

definition execute ::
  "('p list \<Rightarrow> bool) \<Rightarrow> 'p list \<Rightarrow> string \<Rightarrow> bool \<Rightarrow> string list \<Rightarrow> string \<Rightarrow>
     'p pending_jobs \<Rightarrow> 'p queue_item list \<Rightarrow> 'p queue_item list \<Rightarrow> 'p execute_result" where
  "execute cat_ok images multi_job_id is_worker enabled_workers wid jobs arriving racing =
     (if is_worker then
        \<lparr>returned = Inr images, jobs_after = jobs,
         posted = map (\<lambda>i. \<lparr>tensor = images ! i, worker_id = Some wid, image_index = int i,
                             is_last = (i = length images - 1)\<rparr>) [0..<length images],
         timed_out = False\<rparr>
      else
        let num_workers = length enabled_workers in
        if num_workers = 0 then
          \<lparr>returned = Inr images, jobs_after = jobs, posted = [], timed_out = False\<rparr>
        else
          let jobs1 = (if jobs multi_job_id = None then jobs(multi_job_id \<mapsto> []) else jobs);
              q = (case jobs1 multi_job_id of None \<Rightarrow> [] | Some items \<Rightarrow> items);
              (st, timeout) =
                collect_loop num_workers (q @ arriving) racing
                  \<lparr>worker_images = [], workers_done = {}, collected_count = 0\<rparr>;
              jobs2 = jobs1(multi_job_id := None)
          in \<lparr>returned =
                 (case ordered_worker_tensors (worker_images st) of
                    Inl e \<Rightarrow> Inl e
                  | Inr worker_tensors \<Rightarrow>
                      Inr (case torch_cat cat_ok (images @ worker_tensors) of
                             Some combined \<Rightarrow> combined | None \<Rightarrow> images)),
               jobs_after = jobs2,
               posted = [], timed_out = timeout\<rparr>)"

text \<open>
  \<open>DistributedCollectorNode.run\<close>: the node's entry point.
\<close>

definition run ::
  "('p list \<Rightarrow> bool) \<Rightarrow> 'p list \<Rightarrow> string \<Rightarrow> bool \<Rightarrow> string list \<Rightarrow> string \<Rightarrow> bool \<Rightarrow>
     'p pending_jobs \<Rightarrow> 'p queue_item list \<Rightarrow> 'p queue_item list \<Rightarrow> 'p execute_result" where
  "run cat_ok images multi_job_id is_worker enabled_workers wid pass_through jobs arriving racing =
     (if multi_job_id = [] \<or> pass_through then
        \<lparr>returned = Inr images, jobs_after = jobs, posted = [], timed_out = False\<rparr>
      else execute cat_ok images multi_job_id is_worker enabled_workers wid jobs arriving racing)"

subsection \<open>What the collector stores, and the order the specification describes\<close>















section \<open>Worker process manager\<close>

text \<open>
  A worker's configuration is a dict of the configuration file; the manager reads its
  \<open>id\<close> and \<open>name\<close>, and the launch command its \<open>port\<close>, \<open>cuda_device\<close> and
  \<open>extra_args\<close>. Worker ids are strings (the manager keys every table by \<open>str(id)\<close>).
\<close>

record worker_config =
  w_id :: string
  w_name :: string
  w_host :: string
  w_port :: nat
  w_cuda_device :: nat
  w_enabled :: bool
  w_extra_args :: string

text \<open>
  An entry of \<open>WorkerProcessManager.processes\<close>. \<open>process\<close> is the \<open>subprocess.Popen\<close>
  object of the child (identified by the child's pid), or \<open>None\<close> for an entry restored
  from the persisted snapshot. \<open>launching\<close> and \<open>is_monitor\<close> are keys the dict may lack;
  every reader takes a missing key as false. Timestamps are whole seconds.
\<close>

datatype popen = Popen nat

record proc_info =
  pid :: nat
  process :: "popen option"
  started_at :: int
  config :: worker_config
  log_file :: "string option"
  is_monitor :: bool
  launching :: bool

text \<open>An entry of \<open>config['managed_processes']\<close>, the persisted snapshot.\<close>

record saved_info =
  saved_pid :: nat
  saved_started_at :: int
  saved_config :: worker_config
  saved_log_file :: "string option"
  saved_launching :: bool

text \<open>
  The manager and the part of the configuration file it reads and writes. Both tables are
  Python dicts, kept as association lists in insertion order. \<open>children\<close> lists the pids of
  the processes started through \<open>subprocess.Popen\<close>, oldest first.
\<close>

record manager =
  processes :: "(string \<times> proc_info) list"
  workers :: "worker_config list"
  stop_workers_on_master_exit :: bool
  managed_processes :: "(string \<times> saved_info) list"
  children :: "nat list"

text \<open>
  What the operating system answers: \<open>is_process_alive(pid)\<close> of \<open>utils/process.py\<close>,
  whether \<open>process.poll()\<close> is \<open>None\<close> for the child with a given pid, the result of
  \<open>_kill_process_tree(pid)\<close> (every path of it returns a truth value), and whether
  \<open>terminate_process\<close> of \<open>utils/process.py\<close> returns (\<open>True\<close>) or raises.
\<close>

record os_view =
  is_process_alive :: "nat \<Rightarrow> bool"
  poll_is_none :: "nat \<Rightarrow> bool"
  kill_process_tree :: "nat \<Rightarrow> bool"
  terminate_process :: "nat \<Rightarrow> bool"

definition is_process_running :: "os_view \<Rightarrow> nat \<Rightarrow> bool" where
  "is_process_running os p = is_process_alive os p"

text \<open>\<open>_check_worker_process\<close>: (is running, has a subprocess object).\<close>

definition check_worker_process :: "os_view \<Rightarrow> proc_info \<Rightarrow> bool \<times> bool" where
  "check_worker_process os info =
     (case process info of
        Some (Popen child) \<Rightarrow> (poll_is_none os child, True)
      | None \<Rightarrow> if pid info \<noteq> 0 then (is_process_running os (pid info), False)
                else (False, False))"

text \<open>
  \<open>save_processes\<close>: the snapshot holds the entries that are running at save time.
  (\<open>save_config\<close> reports a failed write by its result, which this caller ignores; the
  model takes the write as done.)
\<close>

definition save_processes :: "os_view \<Rightarrow> manager \<Rightarrow> manager" where
  "save_processes os m =
     m\<lparr>managed_processes :=
         map (\<lambda>(wid, info).
                (wid,
                 \<lparr>saved_pid = pid info, saved_started_at = started_at info,
                  saved_config = config info, saved_log_file = log_file info,
                  saved_launching = launching info\<rparr>))
           (filter (\<lambda>(wid, info). fst (check_worker_process os info)) (processes m))\<rparr>"

text \<open>
  \<open>load_processes\<close>: the reconstructed process info (no subprocess object, and neither
  \<open>launching\<close> nor \<open>is_monitor\<close>), one step of the loop over the persisted entries, and the
  loop. An entry is restored when \<open>pid and self._is_process_running(pid)\<close>; a missing pid
  reads as \<open>None\<close>, which is false like \<open>0\<close>.
\<close>

definition restored_info :: "saved_info \<Rightarrow> proc_info" where
  "restored_info info =
     \<lparr>pid = saved_pid info, process = None, started_at = saved_started_at info,
      config = saved_config info, log_file = saved_log_file info,
      is_monitor = False, launching = False\<rparr>"

definition restore_entry ::
  "os_view \<Rightarrow> string \<times> saved_info \<Rightarrow> (string \<times> proc_info) list \<Rightarrow> (string \<times> proc_info) list" where
  "restore_entry os entry procs =
     (case entry of (wid, info) \<Rightarrow>
        if saved_pid info \<noteq> 0 \<and> is_process_running os (saved_pid info)
        then AList.update wid (restored_info info) procs
        else procs)"

definition load_processes :: "os_view \<Rightarrow> manager \<Rightarrow> manager" where
  "load_processes os m = m\<lparr>processes := fold (restore_entry os) (managed_processes m) (processes m)\<rparr>"

text \<open>\<open>WorkerProcessManager.__init__\<close>: an empty table, then \<open>load_processes\<close>.\<close>

definition manager_init :: "os_view \<Rightarrow> manager \<Rightarrow> manager" where
  "manager_init os m = load_processes os (m\<lparr>processes := []\<rparr>)"

text \<open>
  \<open>launch_worker\<close>. What depends on the file system, the clock and \<open>Popen\<close> is given by
  \<open>spawn\<close>: the pid of the started child, or \<open>None\<close> when \<open>build_launch_command\<close> or
  \<open>Popen\<close> raises; the path of the day's log file; the time. The result is the pid, or
  \<open>None\<close> for the exception, and the manager.
\<close>

record spawn =
  spawn_pid :: "nat option"
  spawn_log_file :: string
  spawn_time :: int

definition launch_worker ::
  "os_view \<Rightarrow> spawn \<Rightarrow> worker_config \<Rightarrow> manager \<Rightarrow> nat option \<times> manager" where
  "launch_worker os sp worker_config m =
     (case spawn_pid sp of
        None \<Rightarrow> (None, m)
      | Some child \<Rightarrow>
          (Some child,
           save_processes os
             (m\<lparr>processes :=
                  AList.update (w_id worker_config)
                    \<lparr>pid = child, process = Some (Popen child), started_at = spawn_time sp,
                     config = worker_config, log_file = Some (spawn_log_file sp),
                     is_monitor = stop_workers_on_master_exit m, launching = True\<rparr>
                    (processes m),
                children := children m @ [child]\<rparr>)))"

text \<open>
  \<open>launch_worker_endpoint\<close>. The request's \<open>worker_id\<close> is a string, empty when the field
  is missing. The responses: 400 for a missing id, 404 for an id no configured worker has,
  409 with the pid and log file of the running process, 200 with those of the new one, 500
  when the launch raised.
\<close>

datatype launch_response =
    MissingWorkerId
  | WorkerNotFound
  | AlreadyRunning nat "string option"
  | Launched nat "string option"
  | LaunchFailed

definition launch_worker_endpoint ::
  "os_view \<Rightarrow> spawn \<Rightarrow> string \<Rightarrow> manager \<Rightarrow> launch_response \<times> manager" where
  "launch_worker_endpoint os sp wid m =
     (if wid = [] then (MissingWorkerId, m)
      else case find (\<lambda>w. w_id w = wid) (workers m) of
        None \<Rightarrow> (WorkerNotFound, m)
      | Some worker \<Rightarrow>
          let (running, m1) =
                (case map_of (processes m) wid of
                   None \<Rightarrow> (None, m)
                 | Some info \<Rightarrow>
                     let is_running =
                           (case process info of
                              Some (Popen child) \<Rightarrow> poll_is_none os child
                            | None \<Rightarrow> is_process_running os (pid info))
                     in if is_running then (Some info, m)
                        else (None,
                              save_processes os
                                (m\<lparr>processes := AList.delete wid (processes m)\<rparr>)))
          in case running of
               Some info \<Rightarrow> (AlreadyRunning (pid info) (log_file info), m1)
             | None \<Rightarrow>
                 (case launch_worker os sp worker m1 of
                    (None, m2) \<Rightarrow> (LaunchFailed, m2)
                  | (Some child, m2) \<Rightarrow>
                      (case map_of (processes m2) wid of
                         None \<Rightarrow> (LaunchFailed, m2)
                       | Some info \<Rightarrow> (Launched child (log_file info), m2))))"

text \<open>
  \<open>stop_worker\<close> returns a success flag and a message. The messages: "Worker not managed
  by UI", "Worker stopped", "Failed to stop worker process", "Error stopping worker: ..."
  (an exception was caught), "Worker already stopped", "Worker stopped (fallback)".
\<close>

datatype stop_message =
    NotManaged
  | WorkerStopped
  | FailedToStop
  | ErrorStopping
  | AlreadyStopped
  | StoppedFallback

definition evict :: "os_view \<Rightarrow> string \<Rightarrow> manager \<Rightarrow> manager" where
  "evict os wid m = save_processes os (m\<lparr>processes := AList.delete wid (processes m)\<rparr>)"

definition stop_worker ::
  "os_view \<Rightarrow> string \<Rightarrow> manager \<Rightarrow> (bool \<times> stop_message) \<times> manager" where
  "stop_worker os wid m =
     (case map_of (processes m) wid of
        None \<Rightarrow> ((False, NotManaged), m)
      | Some info \<Rightarrow>
          (case process info of
             None \<Rightarrow>
               if kill_process_tree os (pid info)
               then ((True, WorkerStopped), evict os wid m)
               else ((False, FailedToStop), m)
           | Some (Popen child) \<Rightarrow>
               if \<not> poll_is_none os child
               then ((False, AlreadyStopped), evict os wid m)
               else if kill_process_tree os (pid info)
               then ((True, WorkerStopped), evict os wid m)
               else if terminate_process os child
               then ((True, StoppedFallback), evict os wid m)
               else ((False, ErrorStopping), m)))"

text \<open>
  The outcome the interface calls \<open>StopError\<close>: the call reports failure, and neither
  because the worker is unknown nor because it had already stopped.
\<close>

definition stop_error :: "bool \<times> stop_message \<Rightarrow> bool" where
  "stop_error r = (\<not> fst r \<and> snd r \<noteq> NotManaged \<and> snd r \<noteq> AlreadyStopped)"

subsection \<open>Scenarios\<close>

text \<open>
  Two configured local workers, a process entry as \<open>launch_worker\<close> records it, two
  persisted entries, a manager with given tables, and an operating system in which the
  listed pids are alive and the tree kill and the fallback terminate end as given.
\<close>

definition worker_1 :: worker_config where
  "worker_1 = \<lparr>w_id = ''w1'', w_name = ''Worker 1'', w_host = ''localhost'', w_port = 8189,
                w_cuda_device = 1, w_enabled = True, w_extra_args = []\<rparr>"

definition worker_2 :: worker_config where
  "worker_2 = \<lparr>w_id = ''w2'', w_name = ''Worker 2'', w_host = ''localhost'', w_port = 8190,
                w_cuda_device = 2, w_enabled = True, w_extra_args = []\<rparr>"

definition launched_1 :: proc_info where
  "launched_1 = \<lparr>pid = 4242, process = Some (Popen 4242), started_at = 1000, config = worker_1,
                  log_file = Some ''logs/workers/Worker_1_20250101.log'', is_monitor = True,
                  launching = True\<rparr>"

definition saved_1 :: saved_info where
  "saved_1 = \<lparr>saved_pid = 4242, saved_started_at = 1000, saved_config = worker_1,
               saved_log_file = Some ''logs/workers/Worker_1_20250101.log'',
               saved_launching = False\<rparr>"

definition saved_2 :: saved_info where
  "saved_2 = \<lparr>saved_pid = 4343, saved_started_at = 1001, saved_config = worker_2,
               saved_log_file = Some ''logs/workers/Worker_2_20250101.log'',
               saved_launching = False\<rparr>"

definition manager_with :: "(string \<times> proc_info) list \<Rightarrow> (string \<times> saved_info) list \<Rightarrow> manager" where
  "manager_with procs snapshot =
     \<lparr>processes = procs, workers = [worker_1, worker_2], stop_workers_on_master_exit = True,
      managed_processes = snapshot, children = []\<rparr>"

definition os_with :: "nat list \<Rightarrow> bool \<Rightarrow> bool \<Rightarrow> os_view" where
  "os_with live kill_result terminate_returns =
     \<lparr>is_process_alive = (\<lambda>p. p \<in> set live), poll_is_none = (\<lambda>p. p \<in> set live),
      kill_process_tree = (\<lambda>p. kill_result), terminate_process = (\<lambda>p. terminate_returns)\<rparr>"



section \<open>Auxiliary facts\<close>


lemma processes_save_processes: "processes (save_processes os m) = processes m"
  by (simp add: save_processes_def)

lemma evict_removes: "map_of (processes (evict os wid m)) wid = None"
  by (simp add: evict_def processes_save_processes delete_conv)

lemma map_of_restore_entry:
  "map_of (restore_entry os (k, info) procs) w =
     (if w = k \<and> saved_pid info \<noteq> 0 \<and> is_process_alive os (saved_pid info)
      then Some (restored_info info) else map_of procs w)"
  by (simp add: restore_entry_def is_process_running_def update_conv')

lemma fold_restore_entry:
  "distinct (map fst items) \<Longrightarrow>
   map_of (fold (restore_entry os) items procs) w =
     (case map_of items w of
        None \<Rightarrow> map_of procs w
      | Some info \<Rightarrow>
          if saved_pid info \<noteq> 0 \<and> is_process_alive os (saved_pid info)
          then Some (restored_info info) else map_of procs w)"
proof (induction items arbitrary: procs)
  case Nil
  then show ?case by simp
next
  case (Cons entry items)
  obtain k info where entry: "entry = (k, info)" by (cases entry)
  from Cons.prems have d: "distinct (map fst items)" and k: "k \<notin> fst ` set items"
    by (auto simp: entry)
  from k have none: "map_of items k = None"
    by (simp add: map_of_eq_None_iff)
  have "map_of (fold (restore_entry os) (entry # items) procs) w =
        map_of (fold (restore_entry os) items (restore_entry os (k, info) procs)) w"
    by (simp add: entry)
  also have "\<dots> =
     (case map_of items w of
        None \<Rightarrow> map_of (restore_entry os (k, info) procs) w
      | Some info' \<Rightarrow>
          if saved_pid info' \<noteq> 0 \<and> is_process_alive os (saved_pid info')
          then Some (restored_info info') else map_of (restore_entry os (k, info) procs) w)"
    by (rule Cons.IH [OF d])
  finally show ?case
    using none by (auto simp: entry map_of_restore_entry split: option.splits)
qed

lemma distinct_restore_entry:
  "distinct (map fst procs) \<Longrightarrow> distinct (map fst (restore_entry os entry procs))"
  by (cases entry) (simp add: restore_entry_def distinct_update)

lemma fold_restore_entry_distinct:
  "distinct (map fst procs) \<Longrightarrow> distinct (map fst (fold (restore_entry os) items procs))"
  by (induction items arbitrary: procs) (simp_all add: distinct_restore_entry)
















































lemma not_mixed_keys: "\<forall>r \<in> set items. worker_id r \<noteq> None \<Longrightarrow> \<not> mixed_keys (map worker_id items)"
  by (auto simp: mixed_keys_def)


section \<open>Properties of the collector\<close>

text \<open>
  C9. For every input image batch, \<open>run\<close> returns the input images unchanged whenever the
  job id is the empty string or \<open>pass_through\<close> is true; in both cases the job-queue table
  is not read or written and nothing is posted.
\<close>

theorem run_pass_through_identity:
  "multi_job_id = [] \<or> pass_through \<Longrightarrow>
   run cat_ok images multi_job_id is_worker enabled_workers wid pass_through jobs arriving racing =
     \<lparr>returned = Inr images, jobs_after = jobs, posted = [], timed_out = False\<rparr>"
  by (simp add: run_def)

theorem run_pass_through_identity_witness:
  "run (\<lambda>ts. True) [1, 2 :: nat] ''j1'' False [''a''] [] True
      (Map.empty(''j1'' \<mapsto> [\<lparr>tensor = 7, worker_id = Some ''a'', image_index = 0, is_last = True\<rparr>]))
      [] [] =
     \<lparr>returned = Inr [1, 2],
      jobs_after =
        Map.empty(''j1'' \<mapsto> [\<lparr>tensor = 7, worker_id = Some ''a'', image_index = 0, is_last = True\<rparr>]),
      posted = [], timed_out = False\<rparr>
   \<and> run (\<lambda>ts. True) [1, 2 :: nat] [] False [''a''] [] False Map.empty [] [] =
     \<lparr>returned = Inr [1, 2], jobs_after = Map.empty, posted = [], timed_out = False\<rparr>"
  using
    run_pass_through_identity [of "''j1''" True "\<lambda>ts. True" "[1, 2 :: nat]" False "[''a'']" "[]"
      "Map.empty(''j1'' \<mapsto> [\<lparr>tensor = 7, worker_id = Some ''a'', image_index = 0, is_last = True\<rparr>])"
      "[]" "[]"]
    run_pass_through_identity [of "[]" False "\<lambda>ts. True" "[1, 2 :: nat]" False "[''a'']" "[]"
      Map.empty "[]" "[]"]
  by simp

text \<open>
  C10. For every master-mode call of \<open>execute\<close> whose list of enabled workers is empty, the
  call returns the master's own images unchanged, without entering the waiting loop, and
  leaves the job-queue table as it was: a queue prepared for the job id stays in place.
\<close>

theorem execute_no_workers_returns_images:
  "execute cat_ok images multi_job_id False [] wid jobs arriving racing =
     \<lparr>returned = Inr images, jobs_after = jobs, posted = [], timed_out = False\<rparr>"
  by (simp add: execute_def)

text \<open>
  C3. The claim reads: for every job id and every outcome of a collect call, the queue of
  the job is deleted before the call returns. With an empty list of enabled workers the
  call returns before it touches the table, and a prepared queue survives it.
\<close>

theorem collect_without_workers_keeps_queue:
  "jobs_after
     (execute (\<lambda>ts. True) [1 :: nat] ''j1'' False [] [] (Map.empty(''j1'' \<mapsto> [])) [] []) ''j1''
     = Some []"
  by (simp add: execute_def)

text \<open>
  C3, amended. For every job id and every master-mode call of \<open>execute\<close> with a non-empty
  list of enabled workers, whatever arrives and however the loop is left (all workers done,
  or a timeout with a partial set), the table has no queue for the job id when the call
  returns, and the queues of all other jobs are as before.
\<close>

theorem execute_deletes_queue:
  "enabled_workers \<noteq> [] \<Longrightarrow>
   jobs_after (execute cat_ok images multi_job_id False enabled_workers wid jobs arriving racing) =
     jobs(multi_job_id := None)"
  by (simp add: execute_def Let_def split: prod.splits)

theorem execute_deletes_queue_witness:
  "timed_out (execute (\<lambda>ts. True) [1 :: nat] ''j1'' False [''a''] []
      (Map.empty(''j1'' \<mapsto> [\<lparr>tensor = 7, worker_id = Some ''a'', image_index = 0, is_last = True\<rparr>]))
      [] []) = False
   \<and> jobs_after (execute (\<lambda>ts. True) [1 :: nat] ''j1'' False [''a''] []
      (Map.empty(''j1'' \<mapsto> [\<lparr>tensor = 7, worker_id = Some ''a'', image_index = 0, is_last = True\<rparr>]))
      [] []) ''j1'' = None
   \<and> timed_out (execute (\<lambda>ts. True) [1 :: nat] ''j1'' False [''a'', ''b''] []
      (Map.empty(''j1'' \<mapsto> [\<lparr>tensor = 7, worker_id = Some ''a'', image_index = 0, is_last = True\<rparr>]))
      [] []) = True
   \<and> jobs_after (execute (\<lambda>ts. True) [1 :: nat] ''j1'' False [''a'', ''b''] []
      (Map.empty(''j1'' \<mapsto> [\<lparr>tensor = 7, worker_id = Some ''a'', image_index = 0, is_last = True\<rparr>]))
      [] []) ''j1'' = None"
  using
    execute_deletes_queue [of "[''a'']" "\<lambda>ts. True" "[1 :: nat]" "''j1''" "[]"
      "Map.empty(''j1'' \<mapsto> [\<lparr>tensor = 7, worker_id = Some ''a'', image_index = 0, is_last = True\<rparr>])"
      "[]" "[]"]
    execute_deletes_queue [of "[''a'', ''b'']" "\<lambda>ts. True" "[1 :: nat]" "''j1''" "[]"
      "Map.empty(''j1'' \<mapsto> [\<lparr>tensor = 7, worker_id = Some ''a'', image_index = 0, is_last = True\<rparr>])"
      "[]" "[]"]
  by (simp add: execute_def store_result_def)

text \<open>
  C5. For every job id for which the table has no queue, \<open>job_complete_endpoint\<close> leaves the
  table unchanged and does not answer success; a request that carries a fragment (a job id
  and an image that decodes) gets the not-found answer, status 404. When the queue exists,
  the fragment of such a request is appended to it, at the end, and the call answers
  success; the queue is unbounded, so the \<open>put\<close> does not wait.
\<close>

theorem job_complete_unknown_job:
  "(jobs (form_multi_job_id data) = None \<longrightarrow>
      snd (job_complete_endpoint decode py_int data jobs) = jobs \<and>
      fst (job_complete_endpoint decode py_int data jobs) \<noteq> Success) \<and>
   (jobs (form_multi_job_id data) = None \<and> form_multi_job_id data \<noteq> [] \<and>
    form_image data = Some f \<and> decode f = Some t \<longrightarrow>
      job_complete_endpoint decode py_int data jobs = (Error404, jobs)) \<and>
   (jobs (form_multi_job_id data) = Some q \<and> form_multi_job_id data \<noteq> [] \<and>
    form_image data = Some f \<and> decode f = Some t \<and>
    (if form_image_index data = [] then Some 0 else py_int (form_image_index data)) = Some idx \<longrightarrow>
      job_complete_endpoint decode py_int data jobs =
        (Success,
         jobs(form_multi_job_id data \<mapsto>
           q @ [\<lparr>tensor = t, worker_id = form_worker_id data, image_index = idx,
                  is_last = form_is_last data\<rparr>])))"
  by (auto simp: job_complete_endpoint_def split: option.splits)

theorem job_complete_unknown_job_witness:
  "job_complete_endpoint (\<lambda>f :: nat. if f = 0 then None else Some f)
      (\<lambda>s. if s = ''3'' then Some 3 else None)
      \<lparr>form_multi_job_id = ''j9'', form_image = Some 5, form_worker_id = Some ''a'',
       form_image_index = ''3'', form_is_last = True\<rparr>
      Map.empty = (Error404, Map.empty)
   \<and> job_complete_endpoint (\<lambda>f :: nat. if f = 0 then None else Some f)
      (\<lambda>s. if s = ''3'' then Some 3 else None)
      \<lparr>form_multi_job_id = ''j9'', form_image = Some 5, form_worker_id = Some ''a'',
       form_image_index = ''3'', form_is_last = True\<rparr>
      (Map.empty(''j9'' \<mapsto> [])) =
     (Success,
      Map.empty(''j9'' \<mapsto> [\<lparr>tensor = 5, worker_id = Some ''a'', image_index = 3, is_last = True\<rparr>]))"
  using
    job_complete_unknown_job [where jobs = "Map.empty :: nat pending_jobs"
      and data = "\<lparr>form_multi_job_id = ''j9'', form_image = Some (5 :: nat), form_worker_id = Some ''a'',
                    form_image_index = ''3'', form_is_last = True\<rparr>"
      and decode = "\<lambda>f :: nat. if f = 0 then None else Some f"
      and py_int = "\<lambda>s. if s = ''3'' then Some 3 else None"
      and f = 5 and t = 5 and q = "[]" and idx = 3]
    job_complete_unknown_job [where jobs = "Map.empty(''j9'' \<mapsto> ([] :: nat queue_item list))"
      and data = "\<lparr>form_multi_job_id = ''j9'', form_image = Some (5 :: nat), form_worker_id = Some ''a'',
                    form_image_index = ''3'', form_is_last = True\<rparr>"
      and decode = "\<lambda>f :: nat. if f = 0 then None else Some f"
      and py_int = "\<lambda>s. if s = ''3'' then Some 3 else None"
      and f = 5 and t = 5 and q = "[]" and idx = 3]
  by simp







text \<open>
  C2. The claim reads: with a non-empty set of expected workers, collection ends without a
  timeout only when the set of workers that signalled \<open>is_last\<close> equals the expected set,
  whatever worker ids the fragments carry. The loop compares the number of done workers
  with the number of expected ones. Expected are workers 1 and 2; the queue holds the last
  fragments of worker 1 and of a worker 3, and the last fragment of worker 2 arrives after
  them. The loop ends without a timeout after two items, worker 2 is not among the done
  workers, and its image is not in the result.
\<close>

theorem collect_ends_before_expected_worker_done:
  "timed_out (execute (\<lambda>ts. True) [] ''j1'' False [''1'', ''2''] []
      (Map.empty(''j1'' \<mapsto>
         [\<lparr>tensor = 10 :: nat, worker_id = Some ''1'', image_index = 0, is_last = True\<rparr>,
          \<lparr>tensor = 30, worker_id = Some ''3'', image_index = 0, is_last = True\<rparr>]))
      [\<lparr>tensor = 20, worker_id = Some ''2'', image_index = 0, is_last = True\<rparr>] []) = False
   \<and> returned (execute (\<lambda>ts. True) [] ''j1'' False [''1'', ''2''] []
      (Map.empty(''j1'' \<mapsto>
         [\<lparr>tensor = 10 :: nat, worker_id = Some ''1'', image_index = 0, is_last = True\<rparr>,
          \<lparr>tensor = 30, worker_id = Some ''3'', image_index = 0, is_last = True\<rparr>]))
      [\<lparr>tensor = 20, worker_id = Some ''2'', image_index = 0, is_last = True\<rparr>] []) =
     Inr [10, 30]
   \<and> Some ''2'' \<notin> workers_done (fst (collect_loop (length [''1'', ''2''])
        [\<lparr>tensor = 10 :: nat, worker_id = Some ''1'', image_index = 0, is_last = True\<rparr>,
         \<lparr>tensor = 30, worker_id = Some ''3'', image_index = 0, is_last = True\<rparr>,
         \<lparr>tensor = 20, worker_id = Some ''2'', image_index = 0, is_last = True\<rparr>] []
        \<lparr>worker_images = [], workers_done = {}, collected_count = 0\<rparr>))"
  by (simp add: execute_def store_result_def ordered_worker_tensors_def mixed_keys_def
      torch_cat_def)

section \<open>Properties of the process manager\<close>

text \<open>
  C6. For every configured worker whose id maps to an entry of the process table whose
  process is still running (by \<open>poll\<close> when the entry has its subprocess object, by pid
  otherwise), a launch request for that id answers 409 with the pid and log file of that
  entry and leaves the manager as it was: no process is started (\<open>children\<close> is part of the
  manager) and the table is not modified. A second request in a row, whatever the launch
  would have produced, gets the same answer.
\<close>

theorem launch_already_running:
  assumes "wid \<noteq> []"
    and "find (\<lambda>w. w_id w = wid) (workers m) = Some worker"
    and "map_of (processes m) wid = Some info"
    and "case process info of Some (Popen child) \<Rightarrow> poll_is_none os child
         | None \<Rightarrow> is_process_alive os (pid info)"
  shows "launch_worker_endpoint os sp wid m = (AlreadyRunning (pid info) (log_file info), m)
       \<and> launch_worker_endpoint os sp' wid (snd (launch_worker_endpoint os sp wid m)) =
           (AlreadyRunning (pid info) (log_file info), m)"
proof -
  have "launch_worker_endpoint os s wid m = (AlreadyRunning (pid info) (log_file info), m)" for s
    using assms
    by (auto simp: launch_worker_endpoint_def is_process_running_def split: option.splits popen.splits)
  then show ?thesis by simp
qed

theorem launch_already_running_witness:
  "launch_worker_endpoint (os_with [4242] False True)
      \<lparr>spawn_pid = Some 5000, spawn_log_file = ''x.log'', spawn_time = 2000\<rparr> ''w1''
      (manager_with [(''w1'', launched_1)] [(''w1'', saved_1)]) =
     (AlreadyRunning 4242 (Some ''logs/workers/Worker_1_20250101.log''),
      manager_with [(''w1'', launched_1)] [(''w1'', saved_1)])
   \<and> children (snd (launch_worker_endpoint (os_with [4242] False True)
      \<lparr>spawn_pid = Some 5000, spawn_log_file = ''x.log'', spawn_time = 2000\<rparr> ''w1''
      (manager_with [(''w1'', launched_1)] [(''w1'', saved_1)]))) = []"
  using
    launch_already_running [of "''w1''" "manager_with [(''w1'', launched_1)] [(''w1'', saved_1)]"
      worker_1 launched_1 "os_with [4242] False True"
      "\<lparr>spawn_pid = Some 5000, spawn_log_file = ''x.log'', spawn_time = 2000\<rparr>"
      "\<lparr>spawn_pid = Some 5000, spawn_log_file = ''x.log'', spawn_time = 2000\<rparr>"]
  by (simp add: manager_with_def os_with_def launched_1_def worker_1_def worker_2_def)

text \<open>
  C7. The claim reads: when a stop call ends in a \<open>StopError\<close>, the entry is evicted from
  the table all the same. A restored entry whose tree kill reports failure: the call
  answers "Failed to stop worker process" and the entry is still in the table.
\<close>

theorem stop_error_leaves_restored_entry:
  "stop_error (fst (stop_worker (os_with [4242] False True) ''w1''
      (manager_with [(''w1'', restored_info saved_1)] [(''w1'', saved_1)])))
   \<and> map_of (processes (snd (stop_worker (os_with [4242] False True) ''w1''
      (manager_with [(''w1'', restored_info saved_1)] [(''w1'', saved_1)])))) ''w1'' =
       Some (restored_info saved_1)"
  by (simp add: stop_worker_def stop_error_def manager_with_def os_with_def restored_info_def)

text \<open>
  C7, amended. For every managed worker, a stop call ends in a \<open>StopError\<close> exactly when
  the tree kill reports failure and either the entry was restored without a subprocess
  object or the process is still running and the fallback \<open>terminate_process\<close> raises;
  such a call leaves the manager unchanged, the entry included. When the tree kill reports
  failure on a running process with a subprocess object and the fallback returns, the
  entry is evicted and the call reports success, "Worker stopped (fallback)".
\<close>

theorem stop_error_keeps_entry:
  assumes "map_of (processes m) wid = Some info"
  shows "(stop_error (fst (stop_worker os wid m)) \<longleftrightarrow>
            \<not> kill_process_tree os (pid info) \<and>
            (case process info of None \<Rightarrow> True
             | Some (Popen child) \<Rightarrow> poll_is_none os child \<and> \<not> terminate_process os child))
       \<and> (stop_error (fst (stop_worker os wid m)) \<longrightarrow> snd (stop_worker os wid m) = m)
       \<and> (process info = Some (Popen c) \<and> poll_is_none os c \<and>
             \<not> kill_process_tree os (pid info) \<and> terminate_process os c \<longrightarrow>
             stop_worker os wid m = ((True, StoppedFallback), evict os wid m) \<and>
             map_of (processes (evict os wid m)) wid = None)"
  using assms
  by (auto simp: stop_worker_def stop_error_def evict_removes split: option.splits popen.splits)

theorem stop_error_keeps_entry_witness:
  "map_of (processes (manager_with [(''w1'', launched_1)] [(''w1'', saved_1)])) ''w1'' = Some launched_1
   \<and> stop_worker (os_with [4242] False True) ''w1''
        (manager_with [(''w1'', launched_1)] [(''w1'', saved_1)]) =
       ((True, StoppedFallback), manager_with [] [])
   \<and> \<not> stop_error (fst (stop_worker (os_with [4242] False True) ''w1''
        (manager_with [(''w1'', launched_1)] [(''w1'', saved_1)])))
   \<and> stop_error (fst (stop_worker (os_with [4242] False False) ''w1''
        (manager_with [(''w1'', launched_1)] [(''w1'', saved_1)])))
   \<and> snd (stop_worker (os_with [4242] False False) ''w1''
        (manager_with [(''w1'', launched_1)] [(''w1'', saved_1)])) =
       manager_with [(''w1'', launched_1)] [(''w1'', saved_1)]"
  using
    stop_error_keeps_entry [of "manager_with [(''w1'', launched_1)] [(''w1'', saved_1)]" "''w1''"
      launched_1 "os_with [4242] False True" 4242]
    stop_error_keeps_entry [of "manager_with [(''w1'', launched_1)] [(''w1'', saved_1)]" "''w1''"
      launched_1 "os_with [4242] False False" 4242]
  by (simp add: manager_with_def os_with_def launched_1_def evict_def save_processes_def
      stop_error_def)

text \<open>
  C8. For every persisted snapshot (a dict, so its keys are distinct), the manager built
  from it holds exactly the entries whose pid passes the check \<open>pid and
  self._is_process_running(pid)\<close>, each one with the pid, start time, configuration and
  log file of the snapshot and with no subprocess object (and neither \<open>launching\<close> nor
  \<open>is_monitor\<close>); all other entries are dropped, no error is raised, and the snapshot
  itself is not changed. A snapshot with one dead and one live pid restores only the live
  one.
\<close>

theorem load_restores_live_entries:
  assumes "distinct (map fst (managed_processes m))"
  shows "map_of (processes (manager_init os m)) w =
           (case map_of (managed_processes m) w of
              None \<Rightarrow> None
            | Some info \<Rightarrow>
                if saved_pid info \<noteq> 0 \<and> is_process_alive os (saved_pid info)
                then Some \<lparr>pid = saved_pid info, process = None,
                           started_at = saved_started_at info, config = saved_config info,
                           log_file = saved_log_file info, is_monitor = False,
                           launching = False\<rparr>
                else None)
         \<and> distinct (map fst (processes (manager_init os m)))
         \<and> managed_processes (manager_init os m) = managed_processes m"
  using assms
  by (simp add: manager_init_def load_processes_def fold_restore_entry fold_restore_entry_distinct
      restored_info_def split: option.splits)

theorem load_restores_live_entries_witness:
  "distinct (map fst [(''w1'', saved_1), (''w2'', saved_2)])
   \<and> map_of (processes (manager_init (os_with [4343] False True)
        (manager_with [] [(''w1'', saved_1), (''w2'', saved_2)]))) ''w1'' = None
   \<and> map_of (processes (manager_init (os_with [4343] False True)
        (manager_with [] [(''w1'', saved_1), (''w2'', saved_2)]))) ''w2'' =
       Some \<lparr>pid = 4343, process = None, started_at = 1001, config = worker_2,
             log_file = Some ''logs/workers/Worker_2_20250101.log'', is_monitor = False,
             launching = False\<rparr>"
  using
    load_restores_live_entries [of "manager_with [] [(''w1'', saved_1), (''w2'', saved_2)]"
      "os_with [4343] False True" "''w1''"]
    load_restores_live_entries [of "manager_with [] [(''w1'', saved_1), (''w2'', saved_2)]"
      "os_with [4343] False True" "''w2''"]
  by (simp add: manager_with_def os_with_def saved_1_def saved_2_def)

end
